theory Spec2Isabelle
  imports Main "HOL-Library.AList"
begin

section \<open>JavaScript values used by the store\<close>

text \<open>
  A value thrown by a call: either an instance of \<^verbatim>\<open>Error\<close> carrying its message, or
  any other thrown value. The \<^verbatim>\<open>catch\<close> block of \<^verbatim>\<open>initialize\<close> tells the two apart
  with \<^verbatim>\<open>error instanceof Error\<close>.
\<close>

datatype thrown = JsError string | JsOther string

text \<open>\<^verbatim>\<open>String.prototype.startsWith\<close> and \<^verbatim>\<open>String.prototype.includes\<close>.\<close>

fun String_startsWith :: "string \<Rightarrow> string \<Rightarrow> bool" where
  "String_startsWith s [] = True"
| "String_startsWith [] (c # cs) = False"
| "String_startsWith (x # xs) (c # cs) = (x = c \<and> String_startsWith xs cs)"

fun String_includes :: "string \<Rightarrow> string \<Rightarrow> bool" where
  "String_includes [] n = (n = [])"
| "String_includes (x # xs) n = (String_startsWith (x # xs) n \<or> String_includes xs n)"

text \<open>
  The test of the \<^verbatim>\<open>catch\<close> block of \<^verbatim>\<open>initialize\<close> (lines 198-201):
  \<^verbatim>\<open>error instanceof Error && error.message.includes("User canceled")\<close>.
\<close>

fun isUserCanceled :: "thrown \<Rightarrow> bool" where
  "isUserCanceled (JsError msg) = String_includes msg ''User canceled''"
| "isUserCanceled (JsOther v) = False"

text \<open>\<^verbatim>\<open>String(enabled)\<close> for a boolean.\<close>

definition String_of_bool :: "bool \<Rightarrow> string" where
  "String_of_bool b = (if b then ''true'' else ''false'')"

text \<open>
  The rendering of a number inside a template literal. The storage version is modelled as
  a natural number, written in decimal.
\<close>

fun Number_toString :: "nat \<Rightarrow> string" where
  "Number_toString n =
     (if n < 10 then [''0123456789'' ! n]
      else Number_toString (n div 10) @ [''0123456789'' ! (n mod 10)])"

declare Number_toString.simps [simp del]

subsection \<open>The JavaScript \<^verbatim>\<open>Map\<close> held in memory\<close>

text \<open>
  A \<^verbatim>\<open>Map<string, string>\<close> keeps its entries in insertion order with unique keys:
  \<^verbatim>\<open>set\<close> on a present key replaces the value in place, on an absent key appends.
  \<^verbatim>\<open>new Map(entries)\<close> sets the entries one after the other, so a later duplicate wins.
\<close>

type_synonym jsmap = "(string \<times> string) list"

definition Map_get :: "string \<Rightarrow> jsmap \<Rightarrow> string option" where
  "Map_get k m = map_of m k"

definition Map_has :: "string \<Rightarrow> jsmap \<Rightarrow> bool" where
  "Map_has k m = (k \<in> fst ` set m)"

definition Map_set :: "string \<Rightarrow> string \<Rightarrow> jsmap \<Rightarrow> jsmap" where
  "Map_set k v m = AList.update k v m"

definition Map_delete :: "string \<Rightarrow> jsmap \<Rightarrow> jsmap" where
  "Map_delete k m = AList.delete k m"

definition Map_from_entries :: "(string \<times> string) list \<Rightarrow> jsmap" where
  "Map_from_entries es = foldl (\<lambda>m (k, v). Map_set k v m) [] es"

section \<open>Configuration\<close>

record KeychainStorageOptions =
  storagePrefixKey :: "string option"
  storageVersion :: "nat option"

text \<open>
  The keychain options of the configuration differ only in the access policy; the model
  keeps the policy as the boolean passed to the keychain calls (with or without biometrics).
\<close>

record KeychainStorageConfig =
  serviceName :: string
  encryptionKeyUsername :: string
  biometricsPreferenceKey :: string
  encryptedDataKey :: string
  encryptionSalt :: string

definition DEFAULT_STORAGE_VERSION :: nat where
  "DEFAULT_STORAGE_VERSION = 1"

definition createConfig :: "KeychainStorageOptions \<Rightarrow> KeychainStorageConfig" where
  "createConfig opts =
     (let version = (case storageVersion opts of None \<Rightarrow> DEFAULT_STORAGE_VERSION | Some v \<Rightarrow> v);
          prefix = (case storagePrefixKey opts of None \<Rightarrow> ''kss'' | Some p \<Rightarrow> p)
      in \<lparr> serviceName = prefix @ ''.service.v'' @ Number_toString version,
           encryptionKeyUsername = prefix @ ''.key.v'' @ Number_toString version,
           biometricsPreferenceKey = prefix @ ''.enabled.v'' @ Number_toString version,
           encryptedDataKey = prefix @ ''.storage.v'' @ Number_toString version,
           encryptionSalt = prefix @ ''.salt.v'' @ Number_toString version \<rparr>)"

section \<open>The collaborators\<close>

datatype platform = Web | Native

text \<open>
  What the store is given from outside and does not implement: the platform, the options
  it was constructed with, the cipher primitives of \<^verbatim>\<open>react-native-aes-crypto\<close> and the
  JSON functions of the language. Each of them is a parameter; a primitive that may reject
  returns the thrown value on the left.
  \<^item> \<open>Aes_pbkdf2 key salt\<close> is \<^verbatim>\<open>Aes.pbkdf2(key, salt, 5000, 256, "sha512")\<close>;
  \<^item> \<open>Aes_encrypt data key iv\<close> is \<^verbatim>\<open>Aes.encrypt(data, key, iv, "aes-256-cbc")\<close>;
  \<^item> \<open>Aes_decrypt ciphertext key iv\<close> is \<^verbatim>\<open>Aes.decrypt(ciphertext, key, iv, "aes-256-cbc")\<close>;
  \<^item> \<open>JSON_stringify_entries m\<close> is \<^verbatim>\<open>JSON.stringify(Object.fromEntries(m))\<close>;
  \<^item> \<open>JSON_parse_entries s\<close> is \<^verbatim>\<open>Object.entries(JSON.parse(s))\<close>;
  \<^item> \<open>JSON_stringify_envelope iv ciphertext\<close> is \<^verbatim>\<open>JSON.stringify({ iv, ciphertext })\<close>;
  \<^item> \<open>JSON_parse_envelope s\<close> is \<^verbatim>\<open>const { iv, ciphertext } = JSON.parse(s)\<close>.
\<close>

record runtime =
  Platform_OS :: platform
  options :: KeychainStorageOptions
  Aes_pbkdf2 :: "string \<Rightarrow> string \<Rightarrow> thrown + string"
  Aes_encrypt :: "string \<Rightarrow> string \<Rightarrow> string \<Rightarrow> thrown + string"
  Aes_decrypt :: "string \<Rightarrow> string \<Rightarrow> string \<Rightarrow> thrown + string"
  JSON_stringify_entries :: "jsmap \<Rightarrow> string"
  JSON_parse_entries :: "string \<Rightarrow> thrown + (string \<times> string) list"
  JSON_stringify_envelope :: "string \<Rightarrow> string \<Rightarrow> string"
  JSON_parse_envelope :: "string \<Rightarrow> thrown + string \<times> string"

definition config :: "runtime \<Rightarrow> KeychainStorageConfig" where
  "config P = createConfig (options P)"

subsection \<open>The durable stores and the native calls\<close>

text \<open>
  The keychain holds one credential per service; AsyncStorage holds strings by name.
  Every native call that reaches a store or the random generator is recorded in \<open>calls\<close>,
  in the order it was made. The \<open>n\<close>-th native call rejects with \<open>e\<close> when
  \<open>fault n = Some e\<close> and then has no effect on the stores; \<open>entropy n\<close> is what the
  \<open>n\<close>-th call returns when it is \<^verbatim>\<open>Aes.randomKey\<close>.
\<close>

record credentials =
  username :: string
  password :: string
  biometric :: bool

datatype call =
    KeychainGet string bool
  | KeychainSet string string string bool
  | StorageGet string
  | StorageSet string string
  | RandomKey nat

record world =
  keychain :: "string \<rightharpoonup> credentials"
  asyncStorage :: "string \<rightharpoonup> string"
  calls :: "call list"
  fault :: "nat \<Rightarrow> thrown option"
  entropy :: "nat \<Rightarrow> string"

text \<open>What a call that is not rejected does to the stores.\<close>

fun effect :: "call \<Rightarrow> world \<Rightarrow> world" where
  "effect (KeychainSet svc u p b) w =
     w\<lparr>keychain := (keychain w)(svc \<mapsto> \<lparr>username = u, password = p, biometric = b\<rparr>)\<rparr>"
| "effect (StorageSet n v) w = w\<lparr>asyncStorage := (asyncStorage w)(n \<mapsto> v)\<rparr>"
| "effect (KeychainGet svc b) w = w"
| "effect (StorageGet n) w = w"
| "effect (RandomKey n) w = w"

text \<open>A native call: it is recorded, and it is rejected when a fault is planned for it.\<close>

definition native :: "call \<Rightarrow> world \<Rightarrow> (thrown + unit) \<times> world" where
  "native c w =
     (case fault w (length (calls w)) of
        Some e \<Rightarrow> (Inl e, w\<lparr>calls := calls w @ [c]\<rparr>)
      | None \<Rightarrow> (Inr (), effect c (w\<lparr>calls := calls w @ [c]\<rparr>)))"

text \<open>
  The stores after a sequence of calls none of which was rejected: after a prefix of the
  calls of a method, they are the stores an interruption at that point leaves behind.
\<close>

definition replay :: "call list \<Rightarrow> world \<Rightarrow> world" where
  "replay cs w = foldl (\<lambda>w c. effect c w) w cs"

definition AsyncStorage_getItem :: "string \<Rightarrow> world \<Rightarrow> (thrown + string option) \<times> world" where
  "AsyncStorage_getItem name w =
     (case native (StorageGet name) w of
        (Inl e, w') \<Rightarrow> (Inl e, w')
      | (Inr _, w') \<Rightarrow> (Inr (asyncStorage w' name), w'))"

definition AsyncStorage_setItem :: "string \<Rightarrow> string \<Rightarrow> world \<Rightarrow> (thrown + unit) \<times> world" where
  "AsyncStorage_setItem name v w = native (StorageSet name v) w"

definition Keychain_getGenericPassword ::
  "string \<Rightarrow> bool \<Rightarrow> world \<Rightarrow> (thrown + credentials option) \<times> world" where
  "Keychain_getGenericPassword svc bio w =
     (case native (KeychainGet svc bio) w of
        (Inl e, w') \<Rightarrow> (Inl e, w')
      | (Inr _, w') \<Rightarrow> (Inr (keychain w' svc), w'))"

definition Keychain_setGenericPassword ::
  "string \<Rightarrow> string \<Rightarrow> string \<Rightarrow> bool \<Rightarrow> world \<Rightarrow> (thrown + unit) \<times> world" where
  "Keychain_setGenericPassword u p svc bio w = native (KeychainSet svc u p bio) w"

definition Aes_randomKey :: "nat \<Rightarrow> world \<Rightarrow> (thrown + string) \<times> world" where
  "Aes_randomKey n w =
     (case native (RandomKey n) w of
        (Inl e, w') \<Rightarrow> (Inl e, w')
      | (Inr _, w') \<Rightarrow> (Inr (entropy w (length (calls w))), w'))"

section \<open>The store\<close>

record store =
  memory :: jsmap
  biometricsEnabled :: bool
  encryptionKey :: "string option"

text \<open>The fields of a freshly constructed \<^verbatim>\<open>KeychainSyncedStore\<close> (lines 96-100).\<close>

definition new_store :: store where
  "new_store = \<lparr> memory = [], biometricsEnabled = False, encryptionKey = None \<rparr>"

text \<open>
  Each method takes the store and the world and returns them updated. A method that can
  throw returns the thrown value on the left, together with the state at the moment of the
  throw. Logging is left out. Each asynchronous method is run to its end without another
  one interleaved.
\<close>

definition generateKey :: "runtime \<Rightarrow> string \<Rightarrow> world \<Rightarrow> (thrown + string) \<times> world" where
  "generateKey P salt w =
     (case Aes_randomKey 64 w of
        (Inl e, w') \<Rightarrow> (Inl e, w')
      | (Inr key, w') \<Rightarrow> (Aes_pbkdf2 P key salt, w'))"

definition loadBiometricsPreference :: "runtime \<Rightarrow> store \<times> world \<Rightarrow> store \<times> world" where
  "loadBiometricsPreference P = (\<lambda>(s, w).
     (case AsyncStorage_getItem (biometricsPreferenceKey (config P)) w of
        (Inl e, w') \<Rightarrow> (s, w')
      | (Inr v, w') \<Rightarrow> (s\<lparr>biometricsEnabled := (v = Some ''true'')\<rparr>, w')))"

definition getItem :: "string \<Rightarrow> store \<Rightarrow> string option" where
  "getItem k s = Map_get k (memory s)"

definition getEncryptionKeyFromKeychain ::
  "runtime \<Rightarrow> store \<times> world \<Rightarrow> (thrown + string option) \<times> store \<times> world" where
  "getEncryptionKeyFromKeychain P = (\<lambda>(s, w).
     (case Keychain_getGenericPassword (serviceName (config P)) (biometricsEnabled s) w of
        (Inl e, w') \<Rightarrow> (Inl e, s, w')
      | (Inr c, w') \<Rightarrow> (Inr (map_option password c), s, w')))"

definition saveEncryptionKeyToKeychain ::
  "runtime \<Rightarrow> string \<Rightarrow> bool \<Rightarrow> store \<times> world \<Rightarrow> (thrown + unit) \<times> store \<times> world" where
  "saveEncryptionKeyToKeychain P key biometrics = (\<lambda>(s, w).
     (case Keychain_setGenericPassword (encryptionKeyUsername (config P)) key
             (serviceName (config P)) biometrics w of
        (r, w') \<Rightarrow> (r, s, w')))"

definition encryptData :: "runtime \<Rightarrow> string \<Rightarrow> string \<Rightarrow> world \<Rightarrow> (thrown + string) \<times> world" where
  "encryptData P data key w =
     (case Aes_randomKey 16 w of
        (Inl e, w') \<Rightarrow> (Inl e, w')
      | (Inr iv, w') \<Rightarrow>
          (case Aes_encrypt P data key iv of
             Inl e \<Rightarrow> (Inl e, w')
           | Inr ciphertext \<Rightarrow> (Inr (JSON_stringify_envelope P iv ciphertext), w')))"

text \<open>
  \<^verbatim>\<open>!key\<close> for a value that is a string or \<^verbatim>\<open>null\<close>: true for \<^verbatim>\<open>null\<close> and for the
  empty string. The same test guards \<^verbatim>\<open>decryptData\<close> and \<^verbatim>\<open>syncToStorage\<close> (on the
  active key) and the blob read by \<^verbatim>\<open>initialize\<close>, where it is written out by cases.
\<close>

definition falsy :: "string option \<Rightarrow> bool" where
  "falsy k = (case k of None \<Rightarrow> True | Some v \<Rightarrow> v = [])"

definition decryptData :: "runtime \<Rightarrow> string \<Rightarrow> store \<Rightarrow> thrown + string" where
  "decryptData P encryptedJson s =
     (case encryptionKey s of
        None \<Rightarrow> Inl (JsError ''Decryption failed: Encryption key is not available.'')
      | Some key \<Rightarrow>
          if key = [] then Inl (JsError ''Decryption failed: Encryption key is not available.'')
          else (case JSON_parse_envelope P encryptedJson of
                  Inl e \<Rightarrow> Inl e
                | Inr (iv, ciphertext) \<Rightarrow> Aes_decrypt P ciphertext key iv))"

text \<open>The \<^verbatim>\<open>try\<close> block of \<^verbatim>\<open>syncToStorage\<close> (lines 338-346), with the active key.\<close>

definition syncToStorage_try ::
  "runtime \<Rightarrow> string \<Rightarrow> store \<times> world \<Rightarrow> (thrown + unit) \<times> store \<times> world" where
  "syncToStorage_try P key = (\<lambda>(s, w).
     (case encryptData P (JSON_stringify_entries P (memory s)) key w of
        (Inl e, w1) \<Rightarrow> (Inl e, s, w1)
      | (Inr encryptedData, w1) \<Rightarrow>
          (case AsyncStorage_setItem (encryptedDataKey (config P)) encryptedData w1 of
             (r, w2) \<Rightarrow> (r, s, w2))))"

definition syncToStorage :: "runtime \<Rightarrow> store \<times> world \<Rightarrow> store \<times> world" where
  "syncToStorage P = (\<lambda>(s, w).
     (case encryptionKey s of
        None \<Rightarrow> (s, w)
      | Some key \<Rightarrow>
          if Platform_OS P = Web \<or> key = [] then (s, w)
          else (case syncToStorage_try P key (s, w) of (r, s', w') \<Rightarrow> (s', w'))))"

definition setItem :: "runtime \<Rightarrow> string \<Rightarrow> string \<Rightarrow> store \<times> world \<Rightarrow> store \<times> world" where
  "setItem P k v = (\<lambda>(s, w). syncToStorage P (s\<lparr>memory := Map_set k v (memory s)\<rparr>, w))"

definition removeItem :: "runtime \<Rightarrow> string \<Rightarrow> store \<times> world \<Rightarrow> store \<times> world" where
  "removeItem P k = (\<lambda>(s, w).
     if Map_has k (memory s)
     then syncToStorage P (s\<lparr>memory := Map_delete k (memory s)\<rparr>, w)
     else (s, w))"

text \<open>
  Lines 171-180 of \<^verbatim>\<open>initialize\<close>: read the key, generate and save one when none is
  found, and make it the active key.
\<close>

definition initialize_key ::
  "runtime \<Rightarrow> store \<times> world \<Rightarrow> (thrown + unit) \<times> store \<times> world" where
  "initialize_key P = (\<lambda>(s, w).
     (case getEncryptionKeyFromKeychain P (s, w) of
        (Inl e, s1, w1) \<Rightarrow> (Inl e, s1, w1)
      | (Inr key, s1, w1) \<Rightarrow>
          if falsy key then
            (case generateKey P (encryptionSalt (config P)) w1 of
               (Inl e, w2) \<Rightarrow> (Inl e, s1, w2)
             | (Inr newKey, w2) \<Rightarrow>
                 (case saveEncryptionKeyToKeychain P newKey (biometricsEnabled s1) (s1, w2) of
                    (Inl e, s3, w3) \<Rightarrow> (Inl e, s3, w3)
                  | (Inr _, s3, w3) \<Rightarrow> (Inr (), s3\<lparr>encryptionKey := Some newKey\<rparr>, w3)))
          else (Inr (), s1\<lparr>encryptionKey := key\<rparr>, w1)))"

text \<open>Lines 183-196 of \<^verbatim>\<open>initialize\<close>: fetch the blob, decrypt it and fill the map.\<close>

definition initialize_data ::
  "runtime \<Rightarrow> store \<times> world \<Rightarrow> (thrown + unit) \<times> store \<times> world" where
  "initialize_data P = (\<lambda>(s, w).
     (case AsyncStorage_getItem (encryptedDataKey (config P)) w of
        (Inl e, w1) \<Rightarrow> (Inl e, s, w1)
      | (Inr None, w1) \<Rightarrow> (Inr (), s, w1)
      | (Inr (Some encryptedData), w1) \<Rightarrow>
          if encryptedData = [] then (Inr (), s, w1)
          else (case decryptData P encryptedData s of
                  Inl e \<Rightarrow> (Inl e, s, w1)
                | Inr decryptedData \<Rightarrow>
                    (case JSON_parse_entries P decryptedData of
                       Inl e \<Rightarrow> (Inl e, s, w1)
                     | Inr es \<Rightarrow> (Inr (), s\<lparr>memory := Map_from_entries es\<rparr>, w1)))))"

text \<open>The \<^verbatim>\<open>try\<close> block of \<^verbatim>\<open>initialize\<close> (lines 168-196).\<close>

definition initialize_try ::
  "runtime \<Rightarrow> store \<times> world \<Rightarrow> (thrown + unit) \<times> store \<times> world" where
  "initialize_try P st =
     (case initialize_key P (loadBiometricsPreference P st) of
        (Inl e, s1, w1) \<Rightarrow> (Inl e, s1, w1)
      | (Inr _, s1, w1) \<Rightarrow> initialize_data P (s1, w1))"

definition initialize :: "runtime \<Rightarrow> store \<times> world \<Rightarrow> store \<times> world" where
  "initialize P st =
     (if Platform_OS P = Web then st
      else (case initialize_try P st of
              (Inr _, s', w') \<Rightarrow> (s', w')
            | (Inl e, s', w') \<Rightarrow>
                if isUserCanceled e then (s'\<lparr>memory := [], encryptionKey := None\<rparr>, w')
                else (s', w')))"

text \<open>The \<^verbatim>\<open>try\<close> block of \<^verbatim>\<open>setEnableBiometrics\<close> (lines 225-247).\<close>

definition setEnableBiometrics_try ::
  "runtime \<Rightarrow> bool \<Rightarrow> store \<times> world \<Rightarrow> (thrown + unit) \<times> store \<times> world" where
  "setEnableBiometrics_try P enabled = (\<lambda>(s, w).
     (case (if biometricsEnabled s then getEncryptionKeyFromKeychain P (s, w)
            else (Inr None, s, w)) of
        (Inl e, s1, w1) \<Rightarrow> (Inl e, s1, w1)
      | (Inr _, s1, w1) \<Rightarrow>
     (case generateKey P (encryptionSalt (config P)) w1 of
        (Inl e, w2) \<Rightarrow> (Inl e, s1, w2)
      | (Inr newKey, w2) \<Rightarrow>
     (case encryptData P (JSON_stringify_entries P (memory s1)) newKey w2 of
        (Inl e, w3) \<Rightarrow> (Inl e, s1, w3)
      | (Inr encryptedData, w3) \<Rightarrow>
     (case AsyncStorage_setItem (encryptedDataKey (config P)) encryptedData w3 of
        (Inl e, w4) \<Rightarrow> (Inl e, s1, w4)
      | (Inr _, w4) \<Rightarrow>
     (case saveEncryptionKeyToKeychain P newKey enabled (s1, w4) of
        (Inl e, s5, w5) \<Rightarrow> (Inl e, s5, w5)
      | (Inr _, s5, w5) \<Rightarrow>
     (case AsyncStorage_setItem (biometricsPreferenceKey (config P)) (String_of_bool enabled) w5 of
        (Inl e, w6) \<Rightarrow> (Inl e, s5\<lparr>encryptionKey := Some newKey, biometricsEnabled := enabled\<rparr>, w6)
      | (Inr _, w6) \<Rightarrow>
          (Inr (), s5\<lparr>encryptionKey := Some newKey, biometricsEnabled := enabled\<rparr>, w6))))))))"

definition setEnableBiometrics ::
  "runtime \<Rightarrow> bool \<Rightarrow> store \<times> world \<Rightarrow> (thrown + unit) \<times> store \<times> world" where
  "setEnableBiometrics P enabled = (\<lambda>(s, w).
     if Platform_OS P = Web \<or> encryptionKey s = None then (Inr (), s, w)
     else setEnableBiometrics_try P enabled (s, w))"

definition getBiometricsEnabled :: "store \<Rightarrow> bool" where
  "getBiometricsEnabled s = biometricsEnabled s"

section \<open>Sequences of facade calls\<close>

datatype facade_call = SetItem string string | RemoveItem string

fun facade :: "runtime \<Rightarrow> facade_call \<Rightarrow> store \<times> world \<Rightarrow> store \<times> world" where
  "facade P (SetItem k v) st = setItem P k v st"
| "facade P (RemoveItem k) st = removeItem P k st"

definition run_calls :: "runtime \<Rightarrow> facade_call list \<Rightarrow> store \<times> world \<Rightarrow> store \<times> world" where
  "run_calls P cs st = foldl (\<lambda>st c. facade P c st) st cs"

section \<open>What is assumed of the cipher and of JSON\<close>

text \<open>The cipher decrypts what it encrypted, under the same key and vector.\<close>

definition cipher_inverts :: "runtime \<Rightarrow> bool" where
  "cipher_inverts P =
     (\<forall>data key iv ct. Aes_encrypt P data key iv = Inr ct \<longrightarrow> Aes_decrypt P ct key iv = Inr data)"

text \<open>The text of an envelope is not empty and parses back to its two fields.\<close>

definition envelope_inverts :: "runtime \<Rightarrow> bool" where
  "envelope_inverts P =
     (\<forall>iv ct. JSON_stringify_envelope P iv ct \<noteq> [] \<and>
              JSON_parse_envelope P (JSON_stringify_envelope P iv ct) = Inr (iv, ct))"

text \<open>
  The text of the map \<open>m\<close> parses back to the entries of an object (their keys are
  distinct) that holds the same value as \<open>m\<close> under every key.
\<close>

definition entries_invert :: "runtime \<Rightarrow> jsmap \<Rightarrow> bool" where
  "entries_invert P m =
     (\<exists>es. JSON_parse_entries P (JSON_stringify_entries P m) = Inr es \<and>
           distinct (map fst es) \<and> map_of es = map_of m)"

text \<open>A derived key is never the empty string.\<close>

definition derived_keys_nonempty :: "runtime \<Rightarrow> bool" where
  "derived_keys_nonempty P = (\<forall>key salt r. Aes_pbkdf2 P key salt = Inr r \<longrightarrow> r \<noteq> [])"

section \<open>A small runtime to run the store on\<close>

text \<open>
  Stand-ins for the collaborators, simple enough to evaluate: a string is written as its
  length in unary, a separator and its characters; the cipher prefixes the text with the
  key and the vector and refuses a text that does not start with them.
\<close>

definition put_string :: "string \<Rightarrow> string" where
  "put_string s = replicate (length s) (CHR ''1'') @ CHR ''0'' # s"

definition take_string :: "string \<Rightarrow> (string \<times> string) option" where
  "take_string t =
     (let n = length (takeWhile (\<lambda>c. c = CHR ''1'') t); r = drop (Suc n) t
      in if n < length t \<and> t ! n = CHR ''0'' \<and> n \<le> length r
         then Some (take n r, drop n r) else None)"

fun take_entries :: "nat \<Rightarrow> string \<Rightarrow> (string \<times> string) list option" where
  "take_entries 0 t = (if t = [] then Some [] else None)"
| "take_entries (Suc f) t =
     (if t = [] then Some []
      else (case take_string t of
              None \<Rightarrow> None
            | Some (k, t1) \<Rightarrow>
                (case take_string t1 of
                   None \<Rightarrow> None
                 | Some (v, t2) \<Rightarrow> map_option ((#) (k, v)) (take_entries f t2))))"

definition test_runtime :: runtime where
  "test_runtime = \<lparr> Platform_OS = Native,
      options = \<lparr> storagePrefixKey = None, storageVersion = None \<rparr>,
      Aes_pbkdf2 = (\<lambda>key salt. Inr (key @ ''+'' @ salt)),
      Aes_encrypt = (\<lambda>data key iv. Inr (key @ iv @ data)),
      Aes_decrypt = (\<lambda>ct key iv.
         if String_startsWith ct (key @ iv) then Inr (drop (length (key @ iv)) ct)
         else Inl (JsError ''bad decrypt'')),
      JSON_stringify_entries = (\<lambda>m. concat (map (\<lambda>(k, v). put_string k @ put_string v) m)),
      JSON_parse_entries = (\<lambda>t. case take_entries (length t) t of
                                   None \<Rightarrow> Inl (JsError ''SyntaxError'')
                                 | Some es \<Rightarrow> Inr es),
      JSON_stringify_envelope = (\<lambda>iv ct. put_string iv @ ct),
      JSON_parse_envelope = (\<lambda>t. case take_string t of
                                   None \<Rightarrow> Inl (JsError ''SyntaxError'')
                                 | Some p \<Rightarrow> Inr p) \<rparr>"

text \<open>
  A world with the given stores and faults and no call made yet; its \<open>n\<close>-th random
  string is \<open>r\<close> followed by \<open>n\<close> times \<open>x\<close>.
\<close>

definition test_world ::
  "(string \<rightharpoonup> credentials) \<Rightarrow> (string \<rightharpoonup> string) \<Rightarrow> (nat \<Rightarrow> thrown option) \<Rightarrow> world" where
  "test_world kc st f =
     \<lparr> keychain = kc, asyncStorage = st, calls = [], fault = f,
       entropy = (\<lambda>n. CHR ''r'' # replicate n (CHR ''x'')) \<rparr>"

text \<open>A keychain that holds the key \<open>k\<close> of the default configuration, without biometrics.\<close>

definition test_keychain :: "string \<Rightarrow> (string \<rightharpoonup> credentials)" where
  "test_keychain k =
     [''kss.service.v1'' \<mapsto> \<lparr> username = ''kss.key.v1'', password = k, biometric = False \<rparr>]"

text \<open>A store that is ready: it holds one entry and the active key \<open>k\<close>.\<close>

definition test_store :: "string \<Rightarrow> store" where
  "test_store k = \<lparr> memory = [(''session'', ''A'')], biometricsEnabled = False, encryptionKey = Some k \<rparr>"

text \<open>A world in which the second native call, the read of the key, is canceled by the user.\<close>

definition canceled_world :: world where
  "canceled_world =
     test_world (test_keychain ''K'') Map.empty
       (\<lambda>n. if n = 1 then Some (JsError ''User canceled the operation.'') else None)"

text \<open>A world in which no call fails, with the key \<open>K\<close> in the keychain and no blob.\<close>

definition quiet_world :: world where
  "quiet_world = test_world (test_keychain ''K'') Map.empty (\<lambda>n. None)"

text \<open>A world in which no call fails and the persisted blob is not an envelope.\<close>

definition corrupt_world :: world where
  "corrupt_world =
     test_world (test_keychain ''K'') [''kss.storage.v1'' \<mapsto> ''corrupted''] (\<lambda>n. None)"

text \<open>
  A world in which the fifth native call fails: in a rotation that starts without
  biometrics it is the write of the preference.
\<close>

definition failing_preference_world :: world where
  "failing_preference_world =
     test_world (test_keychain ''K'') Map.empty
       (\<lambda>n. if n = 4 then Some (JsError ''disk full'') else None)"

section \<open>Properties of the collaborators' stand-ins and of the map\<close>

lemma String_startsWith_append: "String_startsWith (p @ s) p"
  by (induction p) auto

lemma takeWhile_ones:
  "takeWhile (\<lambda>c. c = CHR ''1'') (replicate n (CHR ''1'') @ CHR ''0'' # r) = replicate n (CHR ''1'')"
  by (induction n) auto

lemma take_string_put_string: "take_string (put_string s @ r) = Some (s, r)"
  by (simp add: take_string_def put_string_def takeWhile_ones Let_def nth_append)

lemma test_cipher_inverts: "cipher_inverts test_runtime"
  using String_startsWith_append [of "key @ iv" for key iv]
  by (auto simp: cipher_inverts_def test_runtime_def)

lemma test_envelope_inverts: "envelope_inverts test_runtime"
  by (simp add: envelope_inverts_def test_runtime_def take_string_put_string)
     (simp add: put_string_def)

lemma test_config:
  "config test_runtime =
     \<lparr> serviceName = ''kss.service.v1'', encryptionKeyUsername = ''kss.key.v1'',
       biometricsPreferenceKey = ''kss.enabled.v1'', encryptedDataKey = ''kss.storage.v1'',
       encryptionSalt = ''kss.salt.v1'' \<rparr>"
  by (simp add: config_def createConfig_def test_runtime_def DEFAULT_STORAGE_VERSION_def
        Number_toString.simps)

lemma map_of_Map_from_entries_aux:
  "map_of (foldl (\<lambda>m (k, v). Map_set k v m) m0 es) = map_of m0 ++ map_of (rev es)"
  by (induction es arbitrary: m0) (auto simp: Map_set_def update_conv' map_add_upd_left)

lemma map_of_Map_from_entries:
  "distinct (map fst es) \<Longrightarrow> map_of (Map_from_entries es) = map_of es"
  by (simp add: Map_from_entries_def map_of_Map_from_entries_aux)
     (metis distinct_rev map_of_inject_set rev_map set_rev)

section \<open>The native calls in closed form\<close>

lemma config_names_distinct:
  "biometricsPreferenceKey (config P) \<noteq> encryptedDataKey (config P)"
  by (simp add: config_def createConfig_def Let_def)

lemma AsyncStorage_getItem_eq:
  "AsyncStorage_getItem n w =
     (case fault w (length (calls w)) of Some e \<Rightarrow> Inl e | None \<Rightarrow> Inr (asyncStorage w n),
      w\<lparr>calls := calls w @ [StorageGet n]\<rparr>)"
  by (simp add: AsyncStorage_getItem_def native_def split: option.splits)

lemma Keychain_getGenericPassword_eq:
  "Keychain_getGenericPassword svc b w =
     (case fault w (length (calls w)) of Some e \<Rightarrow> Inl e | None \<Rightarrow> Inr (keychain w svc),
      w\<lparr>calls := calls w @ [KeychainGet svc b]\<rparr>)"
  by (simp add: Keychain_getGenericPassword_def native_def split: option.splits)

lemma Aes_randomKey_eq:
  "Aes_randomKey n w =
     (case fault w (length (calls w)) of Some e \<Rightarrow> Inl e | None \<Rightarrow> Inr (entropy w (length (calls w))),
      w\<lparr>calls := calls w @ [RandomKey n]\<rparr>)"
  by (simp add: Aes_randomKey_def native_def split: option.splits)

lemma AsyncStorage_setItem_eq:
  "AsyncStorage_setItem n v w =
     (case fault w (length (calls w)) of
        Some e \<Rightarrow> (Inl e, w\<lparr>calls := calls w @ [StorageSet n v]\<rparr>)
      | None \<Rightarrow> (Inr (), w\<lparr>asyncStorage := (asyncStorage w)(n \<mapsto> v),
                           calls := calls w @ [StorageSet n v]\<rparr>))"
  by (simp add: AsyncStorage_setItem_def native_def split: option.splits)

lemma Keychain_setGenericPassword_eq:
  "Keychain_setGenericPassword u p svc b w =
     (case fault w (length (calls w)) of
        Some e \<Rightarrow> (Inl e, w\<lparr>calls := calls w @ [KeychainSet svc u p b]\<rparr>)
      | None \<Rightarrow> (Inr (), w\<lparr>keychain := (keychain w)(svc \<mapsto> \<lparr>username = u, password = p, biometric = b\<rparr>),
                           calls := calls w @ [KeychainSet svc u p b]\<rparr>))"
  by (simp add: Keychain_setGenericPassword_def native_def split: option.splits)

lemmas native_eqs = AsyncStorage_getItem_eq Keychain_getGenericPassword_eq Aes_randomKey_eq
  AsyncStorage_setItem_eq Keychain_setGenericPassword_eq

lemma generateKey_eq:
  "generateKey P salt w =
     (case fault w (length (calls w)) of
        Some e \<Rightarrow> Inl e
      | None \<Rightarrow> Aes_pbkdf2 P (entropy w (length (calls w))) salt,
      w\<lparr>calls := calls w @ [RandomKey 64]\<rparr>)"
  by (simp add: generateKey_def Aes_randomKey_eq split: option.splits)

lemma encryptData_eq:
  "encryptData P data key w =
     (case fault w (length (calls w)) of
        Some e \<Rightarrow> Inl e
      | None \<Rightarrow>
          (case Aes_encrypt P data key (entropy w (length (calls w))) of
             Inl e \<Rightarrow> Inl e
           | Inr ct \<Rightarrow> Inr (JSON_stringify_envelope P (entropy w (length (calls w))) ct)),
      w\<lparr>calls := calls w @ [RandomKey 16]\<rparr>)"
  by (simp add: encryptData_def Aes_randomKey_eq split: option.splits sum.splits)

lemma getEncryptionKeyFromKeychain_eq:
  "getEncryptionKeyFromKeychain P (s, w) =
     (case fault w (length (calls w)) of
        Some e \<Rightarrow> Inl e
      | None \<Rightarrow> Inr (map_option password (keychain w (serviceName (config P)))),
      s, w\<lparr>calls := calls w @ [KeychainGet (serviceName (config P)) (biometricsEnabled s)]\<rparr>)"
  by (simp add: getEncryptionKeyFromKeychain_def Keychain_getGenericPassword_eq split: option.splits)

section \<open>Runs on the small runtime\<close>

lemma test_runtime_fields:
  "Platform_OS test_runtime = Native"
  "Aes_pbkdf2 test_runtime = (\<lambda>key salt. Inr (key @ ''+'' @ salt))"
  "Aes_encrypt test_runtime = (\<lambda>data key iv. Inr (key @ iv @ data))"
  "Aes_decrypt test_runtime = (\<lambda>ct key iv.
         if String_startsWith ct (key @ iv) then Inr (drop (length (key @ iv)) ct)
         else Inl (JsError ''bad decrypt''))"
  "JSON_stringify_entries test_runtime = (\<lambda>m. concat (map (\<lambda>(k, v). put_string k @ put_string v) m))"
  "JSON_parse_entries test_runtime = (\<lambda>t. case take_entries (length t) t of
                                   None \<Rightarrow> Inl (JsError ''SyntaxError'')
                                 | Some es \<Rightarrow> Inr es)"
  "JSON_stringify_envelope test_runtime = (\<lambda>iv ct. put_string iv @ ct)"
  "JSON_parse_envelope test_runtime = (\<lambda>t. case take_string t of
                                   None \<Rightarrow> Inl (JsError ''SyntaxError'')
                                 | Some p \<Rightarrow> Inr p)"
  by (simp_all add: test_runtime_def)

lemma initialize_try_corrupt:
  "initialize_try test_runtime (new_store, corrupt_world) =
     (Inl (JsError ''SyntaxError''),
      \<lparr>memory = [], biometricsEnabled = False, encryptionKey = Some ''K''\<rparr>,
      corrupt_world\<lparr>calls := [StorageGet ''kss.enabled.v1'', KeychainGet ''kss.service.v1'' False,
                              StorageGet ''kss.storage.v1'']\<rparr>)"
  by (simp add: initialize_try_def initialize_key_def initialize_data_def
      loadBiometricsPreference_def getEncryptionKeyFromKeychain_eq AsyncStorage_getItem_eq
      decryptData_def falsy_def
      test_config test_runtime_fields corrupt_world_def test_world_def test_keychain_def
      new_store_def take_string_def)

lemma rotation_failing_preference:
  "setEnableBiometrics test_runtime True (test_store ''K'', failing_preference_world) =
     (Inl (JsError ''disk full''),
      \<lparr>memory = [(''session'', ''A'')], biometricsEnabled = True,
       encryptionKey = Some ''r+kss.salt.v1''\<rparr>,
      failing_preference_world
        \<lparr>keychain := [''kss.service.v1'' \<mapsto>
            \<lparr>username = ''kss.key.v1'', password = ''r+kss.salt.v1'', biometric = True\<rparr>],
         asyncStorage := [''kss.storage.v1'' \<mapsto>
            put_string ''rx'' @ ''r+kss.salt.v1'' @ ''rx'' @ put_string ''session'' @ put_string ''A''],
         calls := [RandomKey 64, RandomKey 16,
            StorageSet ''kss.storage.v1''
              (put_string ''rx'' @ ''r+kss.salt.v1'' @ ''rx'' @ put_string ''session'' @ put_string ''A''),
            KeychainSet ''kss.service.v1'' ''kss.key.v1'' ''r+kss.salt.v1'' True,
            StorageSet ''kss.enabled.v1'' ''true'']\<rparr>)"
  by (simp add: setEnableBiometrics_def setEnableBiometrics_try_def generateKey_eq encryptData_eq
      saveEncryptionKeyToKeychain_def AsyncStorage_setItem_eq Keychain_setGenericPassword_eq
      test_config test_runtime_fields failing_preference_world_def test_world_def test_keychain_def
      test_store_def String_of_bool_def)

section \<open>The steps of initialization and of rotation\<close>

lemma loadBiometricsPreference_frame:
  "loadBiometricsPreference P (s, w) = (s0, w0) \<Longrightarrow>
     memory s0 = memory s \<and> encryptionKey s0 = encryptionKey s \<and>
     w0 = w\<lparr>calls := calls w @ [StorageGet (biometricsPreferenceKey (config P))]\<rparr>"
  by (auto simp: loadBiometricsPreference_def AsyncStorage_getItem_eq split: option.splits)

lemma initialize_key_Inl:
  "initialize_key P (s, w) = (Inl e, s1, w1) \<Longrightarrow>
     s1 = s \<and> calls w1 \<noteq> [] \<and> (\<forall>n. last (calls w1) \<noteq> StorageGet n)"
  by (auto simp: initialize_key_def getEncryptionKeyFromKeychain_def generateKey_def
        saveEncryptionKeyToKeychain_def native_eqs
      split: option.splits sum.splits if_splits)

lemma initialize_key_Inr:
  "initialize_key P (s, w) = (Inr u, s1, w1) \<Longrightarrow>
     memory s1 = memory s \<and> biometricsEnabled s1 = biometricsEnabled s \<and>
     (\<exists>c. keychain w1 (serviceName (config P)) = Some c \<and> encryptionKey s1 = Some (password c))"
  by (auto simp: initialize_key_def getEncryptionKeyFromKeychain_def generateKey_def
        saveEncryptionKeyToKeychain_def native_eqs falsy_def
      split: option.splits sum.splits if_splits)

lemma initialize_data_Inl:
  "initialize_data P (s, w) = (Inl e, s1, w1) \<Longrightarrow>
     s1 = s \<and> w1 = w\<lparr>calls := calls w @ [StorageGet (encryptedDataKey (config P))]\<rparr>"
  by (auto simp: initialize_data_def AsyncStorage_getItem_eq
      split: option.splits sum.splits if_splits)

lemma setEnableBiometrics_try_Inr:
  assumes "setEnableBiometrics_try P enabled (s, w) = (Inr u, s', w')"
  shows "\<exists>newKey iv ct rk.
           Aes_pbkdf2 P rk (encryptionSalt (config P)) = Inr newKey \<and>
           Aes_encrypt P (JSON_stringify_entries P (memory s)) newKey iv = Inr ct \<and>
           s' = s\<lparr>encryptionKey := Some newKey, biometricsEnabled := enabled\<rparr> \<and>
           w' = w\<lparr>keychain := (keychain w)(serviceName (config P) \<mapsto>
                      \<lparr>username = encryptionKeyUsername (config P), password = newKey,
                       biometric = enabled\<rparr>),
                  asyncStorage := (asyncStorage w)
                     (encryptedDataKey (config P) \<mapsto> JSON_stringify_envelope P iv ct,
                      biometricsPreferenceKey (config P) \<mapsto> String_of_bool enabled),
                  calls := calls w
                     @ (if biometricsEnabled s then [KeychainGet (serviceName (config P)) True] else [])
                     @ [RandomKey 64, RandomKey 16,
                        StorageSet (encryptedDataKey (config P)) (JSON_stringify_envelope P iv ct),
                        KeychainSet (serviceName (config P)) (encryptionKeyUsername (config P))
                          newKey enabled,
                        StorageSet (biometricsPreferenceKey (config P)) (String_of_bool enabled)]\<rparr>"
  using assms
  by (auto simp: setEnableBiometrics_try_def getEncryptionKeyFromKeychain_eq generateKey_eq
        encryptData_eq saveEncryptionKeyToKeychain_def AsyncStorage_setItem_eq
        Keychain_setGenericPassword_eq
      split: option.splits sum.splits if_splits)

lemma setEnableBiometrics_try_Inl:
  assumes "setEnableBiometrics_try P enabled (s, w) = (Inl e, s', w')"
  shows "memory s' = memory s \<and>
     (if last (calls w') = StorageSet (biometricsPreferenceKey (config P)) (String_of_bool enabled)
      then (\<exists>c. keychain w' (serviceName (config P)) = Some c \<and> biometric c = enabled \<and>
                encryptionKey s' = Some (password c)) \<and>
           biometricsEnabled s' = enabled
      else encryptionKey s' = encryptionKey s \<and> biometricsEnabled s' = biometricsEnabled s)"
  using assms config_names_distinct [of P]
  by (auto simp: setEnableBiometrics_try_def getEncryptionKeyFromKeychain_eq generateKey_eq
        encryptData_eq saveEncryptionKeyToKeychain_def AsyncStorage_setItem_eq
        Keychain_setGenericPassword_eq
      split: option.splits sum.splits if_splits)

section \<open>More runs on the small runtime\<close>

lemma rotation_quiet:
  "setEnableBiometrics test_runtime True (test_store ''K'', quiet_world) =
     (Inr (),
      \<lparr>memory = [(''session'', ''A'')], biometricsEnabled = True,
       encryptionKey = Some ''r+kss.salt.v1''\<rparr>,
      quiet_world
        \<lparr>keychain := [''kss.service.v1'' \<mapsto>
            \<lparr>username = ''kss.key.v1'', password = ''r+kss.salt.v1'', biometric = True\<rparr>],
         asyncStorage := [''kss.storage.v1'' \<mapsto>
            put_string ''rx'' @ ''r+kss.salt.v1'' @ ''rx'' @ put_string ''session'' @ put_string ''A'',
            ''kss.enabled.v1'' \<mapsto> ''true''],
         calls := [RandomKey 64, RandomKey 16,
            StorageSet ''kss.storage.v1''
              (put_string ''rx'' @ ''r+kss.salt.v1'' @ ''rx'' @ put_string ''session'' @ put_string ''A''),
            KeychainSet ''kss.service.v1'' ''kss.key.v1'' ''r+kss.salt.v1'' True,
            StorageSet ''kss.enabled.v1'' ''true'']\<rparr>)"
  by (simp add: setEnableBiometrics_def setEnableBiometrics_try_def generateKey_eq encryptData_eq
      saveEncryptionKeyToKeychain_def AsyncStorage_setItem_eq Keychain_setGenericPassword_eq
      test_config test_runtime_fields quiet_world_def test_world_def test_keychain_def
      test_store_def String_of_bool_def)

lemma sync_quiet:
  "syncToStorage test_runtime (test_store ''K'', quiet_world) =
     (test_store ''K'',
      quiet_world
        \<lparr>asyncStorage := [''kss.storage.v1'' \<mapsto>
            put_string ''r'' @ ''Kr'' @ put_string ''session'' @ put_string ''A''],
         calls := [RandomKey 16,
            StorageSet ''kss.storage.v1''
              (put_string ''r'' @ ''Kr'' @ put_string ''session'' @ put_string ''A'')]\<rparr>)"
  by (simp add: syncToStorage_def syncToStorage_try_def encryptData_eq AsyncStorage_setItem_eq
      test_config test_runtime_fields quiet_world_def test_world_def test_store_def)

lemma run_quiet:
  "run_calls test_runtime [SetItem ''session'' ''B'', SetItem ''theme'' ''dark'', RemoveItem ''theme'']
     (test_store ''K'', quiet_world) =
    (\<lparr>memory = [(''session'', ''B'')], biometricsEnabled = False, encryptionKey = Some ''K''\<rparr>,
     \<lparr>keychain = test_keychain ''K'',
      asyncStorage = [''kss.storage.v1'' \<mapsto> ''111110rxxxxKrxxxx11111110session10B''],
      calls =
          [RandomKey 16,
           StorageSet ''kss.storage.v1'' ''10rKr11111110session10B'',
           RandomKey 16,
           StorageSet ''kss.storage.v1'' ''1110rxxKrxx11111110session10B111110theme11110dark'',
           RandomKey 16,
           StorageSet ''kss.storage.v1'' ''111110rxxxxKrxxxx11111110session10B''],
      fault = \<lambda>n. None, entropy = \<lambda>n. CHR ''r'' # replicate n (CHR ''x'')\<rparr>)"
  by (simp add: run_calls_def setItem_def removeItem_def Map_set_def Map_delete_def Map_has_def
      syncToStorage_def syncToStorage_try_def encryptData_eq AsyncStorage_setItem_eq
      test_config test_runtime_fields quiet_world_def test_world_def test_store_def put_string_def)

lemma sync_after_run_quiet:
  "syncToStorage_try test_runtime ''K''
     (\<lparr>memory = [(''session'', ''B'')], biometricsEnabled = False, encryptionKey = Some ''K''\<rparr>,
     \<lparr>keychain = test_keychain ''K'',
      asyncStorage = [''kss.storage.v1'' \<mapsto> ''111110rxxxxKrxxxx11111110session10B''],
      calls =
          [RandomKey 16,
           StorageSet ''kss.storage.v1'' ''10rKr11111110session10B'',
           RandomKey 16,
           StorageSet ''kss.storage.v1'' ''1110rxxKrxx11111110session10B111110theme11110dark'',
           RandomKey 16,
           StorageSet ''kss.storage.v1'' ''111110rxxxxKrxxxx11111110session10B''],
      fault = \<lambda>n. None, entropy = \<lambda>n. CHR ''r'' # replicate n (CHR ''x'')\<rparr>) =
    (Inr (),
     \<lparr>memory = [(''session'', ''B'')], biometricsEnabled = False, encryptionKey = Some ''K''\<rparr>,
     \<lparr>keychain = test_keychain ''K'',
      asyncStorage = [''kss.storage.v1'' \<mapsto> ''11111110rxxxxxxKrxxxxxx11111110session10B''],
      calls =
          [RandomKey 16,
           StorageSet ''kss.storage.v1'' ''10rKr11111110session10B'',
           RandomKey 16,
           StorageSet ''kss.storage.v1'' ''1110rxxKrxx11111110session10B111110theme11110dark'',
           RandomKey 16,
           StorageSet ''kss.storage.v1'' ''111110rxxxxKrxxxx11111110session10B'',
           RandomKey 16,
           StorageSet ''kss.storage.v1'' ''11111110rxxxxxxKrxxxxxx11111110session10B''],
      fault = \<lambda>n. None, entropy = \<lambda>n. CHR ''r'' # replicate n (CHR ''x'')\<rparr>)"
  by (simp add: syncToStorage_try_def encryptData_eq AsyncStorage_setItem_eq
      test_config test_runtime_fields put_string_def)

lemma test_derived_keys_nonempty: "derived_keys_nonempty test_runtime"
  by (auto simp: derived_keys_nonempty_def test_runtime_fields)

lemma test_entries_invert_A: "entries_invert test_runtime [(''session'', ''A'')]"
  by (simp add: entries_invert_def test_runtime_fields take_string_def put_string_def)

lemma test_entries_invert_B: "entries_invert test_runtime [(''session'', ''B'')]"
  by (simp add: entries_invert_def test_runtime_fields take_string_def put_string_def)

section \<open>Synchronization, replay and reloading\<close>

lemma syncToStorage_store: "fst (syncToStorage P (s, w)) = s"
  by (auto simp: syncToStorage_def syncToStorage_try_def split: option.splits prod.splits sum.splits)

lemma Map_has_iff: "Map_has k m \<longleftrightarrow> map_of m k \<noteq> None"
  by (simp add: Map_has_def map_of_eq_None_iff)

lemma replay_append: "replay (xs @ ys) w = replay ys (replay xs w)"
  by (simp add: replay_def)

lemma replay_Cons: "replay (c # cs) w = replay cs (effect c w)"
  by (simp add: replay_def)

lemma replay_Nil: "replay [] w = w"
  by (simp add: replay_def)

lemma syncToStorage_try_Inr:
  assumes "syncToStorage_try P key (s, w) = (Inr u, s', w')"
  shows "s' = s \<and> (\<exists>iv ct. Aes_encrypt P (JSON_stringify_entries P (memory s)) key iv = Inr ct \<and>
           w' = w\<lparr>asyncStorage := (asyncStorage w)
                      (encryptedDataKey (config P) \<mapsto> JSON_stringify_envelope P iv ct),
                  calls := calls w @ [RandomKey 16,
                      StorageSet (encryptedDataKey (config P)) (JSON_stringify_envelope P iv ct)]\<rparr>)"
  using assms
  by (auto simp: syncToStorage_try_def encryptData_eq AsyncStorage_setItem_eq
      split: option.splits sum.splits)

lemma syncToStorage_frame:
  "syncToStorage P (s, w) = (s', w') \<Longrightarrow> s' = s \<and> keychain w' = keychain w"
  by (auto simp: syncToStorage_def syncToStorage_try_def encryptData_eq AsyncStorage_setItem_eq
      split: option.splits sum.splits if_splits)

lemma facade_frame:
  "facade P c (s, w) = (s', w') \<Longrightarrow>
     encryptionKey s' = encryptionKey s \<and> keychain w' = keychain w"
  by (cases c) (auto simp: setItem_def removeItem_def dest!: syncToStorage_frame split: if_splits)

lemma run_calls_frame:
  "run_calls P cs (s, w) = (s', w') \<Longrightarrow>
     encryptionKey s' = encryptionKey s \<and> keychain w' = keychain w"
proof (induction cs arbitrary: s w)
  case Nil
  then show ?case by (simp add: run_calls_def)
next
  case (Cons c cs)
  obtain s1 w1 where c: "facade P c (s, w) = (s1, w1)" by (cases "facade P c (s, w)")
  with Cons.prems have "run_calls P cs (s1, w1) = (s', w')" by (simp add: run_calls_def)
  from Cons.IH [OF this] facade_frame [OF c] show ?case by simp
qed

lemma initialize_loads:
  assumes os: "Platform_OS P \<noteq> Web"
    and kc: "keychain w (serviceName (config P)) = Some c" "password c = key" "key \<noteq> []"
    and blob: "asyncStorage w (encryptedDataKey (config P)) = Some (JSON_stringify_envelope P iv ct)"
    and enc: "Aes_encrypt P (JSON_stringify_entries P m) key iv = Inr ct"
    and nf: "\<forall>n\<ge>length (calls w). fault w n = None"
    and ci: "cipher_inverts P" and ei: "envelope_inverts P" and ji: "entries_invert P m"
  shows "map_of (memory (fst (initialize P (s0, w)))) = map_of m \<and>
         encryptionKey (fst (initialize P (s0, w))) = Some key \<and>
         biometricsEnabled (fst (initialize P (s0, w))) =
           (asyncStorage w (biometricsPreferenceKey (config P)) = Some ''true'')"
proof -
  have f: "fault w (length (calls w)) = None" "fault w (Suc (length (calls w))) = None"
    "fault w (Suc (Suc (length (calls w)))) = None"
    using nf by simp_all
  have d: "Aes_decrypt P ct key iv = Inr (JSON_stringify_entries P m)"
    using ci enc by (simp add: cipher_inverts_def)
  have e: "JSON_stringify_envelope P iv ct \<noteq> []"
    "JSON_parse_envelope P (JSON_stringify_envelope P iv ct) = Inr (iv, ct)"
    using ei by (simp_all add: envelope_inverts_def)
  from ji obtain es where es: "JSON_parse_entries P (JSON_stringify_entries P m) = Inr es"
    "distinct (map fst es)" "map_of es = map_of m"
    by (auto simp: entries_invert_def)
  have "map_of (Map_from_entries es) = map_of m"
    using es by (simp add: map_of_Map_from_entries)
  then show ?thesis
    using os kc blob f d e es(1)
    by (simp add: initialize_def initialize_try_def initialize_key_def initialize_data_def
        loadBiometricsPreference_def getEncryptionKeyFromKeychain_eq AsyncStorage_getItem_eq
        decryptData_def falsy_def)
qed

section \<open>The facade\<close>

text \<open>
  Claim C7, as the code has it. Every call to \<^verbatim>\<open>removeItem\<close> leaves the map without
  that key. It starts a synchronization exactly when the key was in the map before the
  call: then it is \<^verbatim>\<open>syncToStorage\<close> on the map without the key; when the key was not in
  the map, the guard \<^verbatim>\<open>if (this.memory.has(key))\<close> skips the synchronization, no native
  call is made and neither the store nor the world changes.
\<close>

theorem removeItem_effect:
  "getItem k (fst (removeItem P k (s, w))) = None \<and>
   memory (fst (removeItem P k (s, w))) = Map_delete k (memory s) \<and>
   (if getItem k s = None then removeItem P k (s, w) = (s, w)
    else removeItem P k (s, w) = syncToStorage P (s\<lparr>memory := Map_delete k (memory s)\<rparr>, w))"
  by (simp add: removeItem_def syncToStorage_store getItem_def Map_get_def Map_has_iff
       Map_delete_def delete_conv)
     (simp add: map_of_eq_None_iff)

text \<open>
  Removing the one entry of a ready store empties the map and synchronizes it.
\<close>

theorem removeItem_effect_witness:
  "getItem ''session'' (test_store ''K'') = Some ''A'' \<and>
   getItem ''session'' (fst (removeItem test_runtime ''session'' (test_store ''K'', quiet_world))) = None \<and>
   memory (fst (removeItem test_runtime ''session'' (test_store ''K'', quiet_world))) = [] \<and>
   calls (snd (removeItem test_runtime ''session'' (test_store ''K'', quiet_world))) =
     [RandomKey 16, StorageSet ''kss.storage.v1'' (put_string ''r'' @ ''Kr'')]"
proof -
  have g: "getItem ''session'' (test_store ''K'') = Some ''A''"
    by (simp add: getItem_def Map_get_def test_store_def)
  have d: "Map_delete ''session'' (memory (test_store ''K'')) = []"
    by (simp add: Map_delete_def test_store_def)
  have c: "calls (snd (syncToStorage test_runtime
             ((test_store ''K'')\<lparr>memory := []\<rparr>, quiet_world))) =
     [RandomKey 16, StorageSet ''kss.storage.v1'' (put_string ''r'' @ ''Kr'')]"
    by (simp add: syncToStorage_def syncToStorage_try_def encryptData_eq AsyncStorage_setItem_eq
      test_config test_runtime_fields quiet_world_def test_world_def test_store_def)
  note r = removeItem_effect [of "''session''" test_runtime "test_store ''K''" quiet_world]
  from r have a: "getItem ''session''
      (fst (removeItem test_runtime ''session'' (test_store ''K'', quiet_world))) = None"
    by (rule conjunct1)
  from r d have b: "memory
      (fst (removeItem test_runtime ''session'' (test_store ''K'', quiet_world))) = []"
    by (simp only:)
  from r g d have e: "removeItem test_runtime ''session'' (test_store ''K'', quiet_world) =
      syncToStorage test_runtime ((test_store ''K'')\<lparr>memory := []\<rparr>, quiet_world)"
    by (simp only: option.distinct if_False)
  from c have "calls (snd (removeItem test_runtime ''session'' (test_store ''K'', quiet_world))) =
     [RandomKey 16, StorageSet ''kss.storage.v1'' (put_string ''r'' @ ''Kr'')]"
    by (simp only: e)
  with g a b show ?thesis by (simp only: simp_thms)
qed

text \<open>
  The claim as it was stated, that every call to \<^verbatim>\<open>removeItem\<close> starts a
  synchronization, fails for a key that is not in the map: on a ready store
  \<^verbatim>\<open>removeItem\<close> makes no native call, where a synchronization of the same store asks for
  a random vector and writes the blob.
\<close>

theorem removeItem_absent_counterexample:
  "getItem ''other'' (test_store ''K'') = None \<and>
   removeItem test_runtime ''other'' (test_store ''K'', quiet_world) = (test_store ''K'', quiet_world) \<and>
   calls (snd (removeItem test_runtime ''other'' (test_store ''K'', quiet_world))) = [] \<and>
   calls (snd (syncToStorage test_runtime (test_store ''K'', quiet_world))) =
     [RandomKey 16,
      StorageSet ''kss.storage.v1'' (put_string ''r'' @ ''Kr'' @ put_string ''session'' @ put_string ''A'')]"
proof -
  have a: "getItem ''other'' (test_store ''K'') = None"
    by (simp add: getItem_def Map_get_def test_store_def)
  have b: "removeItem test_runtime ''other'' (test_store ''K'', quiet_world) = (test_store ''K'', quiet_world)"
    by (simp add: removeItem_def Map_has_def test_store_def)
  have c: "calls quiet_world = []" by (simp add: quiet_world_def test_world_def)
  show ?thesis using a b c by (simp add: sync_quiet)
qed

section \<open>Decryption without a key\<close>

text \<open>
  Claim C9. Whenever \<^verbatim>\<open>decryptData\<close> is called while no encryption key is active, it
  throws the error "Decryption failed: Encryption key is not available." and returns no
  plaintext, whatever the encrypted input is.
\<close>

theorem decryptData_without_key:
  "encryptionKey s = None \<Longrightarrow>
   decryptData P encryptedJson s =
     Inl (JsError ''Decryption failed: Encryption key is not available.'')"
  by (simp add: decryptData_def)

text \<open>
  On a new store the envelope below is refused, although a store that holds the key
  decrypts it.
\<close>

theorem decryptData_without_key_witness:
  "encryptionKey new_store = None \<and>
   decryptData test_runtime (put_string ''r'' @ ''Kr{}'') new_store =
     Inl (JsError ''Decryption failed: Encryption key is not available.'') \<and>
   decryptData test_runtime (put_string ''r'' @ ''Kr{}'') (test_store ''K'') = Inr ''{}''"
proof -
  have h: "encryptionKey new_store = None" by (simp add: new_store_def)
  have d: "decryptData test_runtime (put_string ''r'' @ ''Kr{}'') (test_store ''K'') = Inr ''{}''"
    by (simp add: decryptData_def test_store_def test_runtime_def take_string_put_string)
  show ?thesis
    using h d decryptData_without_key [OF h, of test_runtime "put_string ''r'' @ ''Kr{}''"]
    by simp
qed

section \<open>Initialization\<close>

text \<open>
  Claim C1. If the read of the key during \<^verbatim>\<open>initialize\<close> throws an error whose message
  includes "User canceled", then after \<^verbatim>\<open>initialize\<close> the map in memory is empty,
  \<^verbatim>\<open>getItem\<close> returns \<^verbatim>\<open>null\<close> for every key, and the active key is \<^verbatim>\<open>null\<close>. The
  store has no field for its state: a store is ready when its key is not \<^verbatim>\<open>null\<close>, which
  is what \<^verbatim>\<open>syncToStorage\<close> and \<^verbatim>\<open>setEnableBiometrics\<close> test.
\<close>

theorem initialize_canceled:
  assumes "Platform_OS P \<noteq> Web"
    and "fst (getEncryptionKeyFromKeychain P (loadBiometricsPreference P (s, w))) = Inl e"
    and "isUserCanceled e"
  shows "memory (fst (initialize P (s, w))) = [] \<and>
         (\<forall>k. getItem k (fst (initialize P (s, w))) = None) \<and>
         encryptionKey (fst (initialize P (s, w))) = None"
  using assms
  by (auto simp: initialize_def initialize_try_def initialize_key_def getItem_def Map_get_def
      split: prod.splits sum.splits)

text \<open>
  A store that holds an entry and a key loses both when the prompt is canceled.
\<close>

theorem initialize_canceled_witness:
  "Platform_OS test_runtime \<noteq> Web \<and>
   fst (getEncryptionKeyFromKeychain test_runtime
          (loadBiometricsPreference test_runtime (test_store ''K'', canceled_world)))
     = Inl (JsError ''User canceled the operation.'') \<and>
   isUserCanceled (JsError ''User canceled the operation.'') \<and>
   getItem ''session'' (test_store ''K'') = Some ''A'' \<and>
   getItem ''session'' (fst (initialize test_runtime (test_store ''K'', canceled_world))) = None \<and>
   encryptionKey (fst (initialize test_runtime (test_store ''K'', canceled_world))) = None"
proof -
  have h1: "Platform_OS test_runtime \<noteq> Web" by (simp add: test_runtime_def)
  have h2: "fst (getEncryptionKeyFromKeychain test_runtime
          (loadBiometricsPreference test_runtime (test_store ''K'', canceled_world)))
     = Inl (JsError ''User canceled the operation.'')"
    by (simp add: getEncryptionKeyFromKeychain_def loadBiometricsPreference_def
      AsyncStorage_getItem_def Keychain_getGenericPassword_def native_def canceled_world_def
      test_world_def test_config)
  have h3: "isUserCanceled (JsError ''User canceled the operation.'')" by simp
  have h4: "getItem ''session'' (test_store ''K'') = Some ''A''"
    by (simp add: getItem_def Map_get_def test_store_def)
  show ?thesis
    using h1 h2 h3 h4 initialize_canceled [OF h1 h2 h3] by simp
qed

text \<open>
  Claim C6, as the code has it. When the \<^verbatim>\<open>try\<close> block of \<^verbatim>\<open>initialize\<close> throws an
  error that is not a cancellation, \<^verbatim>\<open>initialize\<close> returns with the state of the moment
  of the throw and the map in memory is what it was. When the throw comes before a key was
  obtained (reading the key, generating one or saving it), the active key is what it was
  before the call, \<^verbatim>\<open>null\<close> on a new store. When it comes after line 180 (the last native
  call is then the read of the blob: fetching, decrypting or parsing it failed), the active
  key is set, to the key the keychain holds.
\<close>

theorem initialize_failure:
  assumes "Platform_OS P \<noteq> Web"
    and "initialize_try P (s, w) = (Inl e, s1, w1)"
    and "\<not> isUserCanceled e"
  shows "initialize P (s, w) = (s1, w1) \<and> memory s1 = memory s \<and>
         (if last (calls w1) = StorageGet (encryptedDataKey (config P))
          then (\<exists>c. keychain w1 (serviceName (config P)) = Some c \<and>
                    encryptionKey s1 = Some (password c))
          else encryptionKey s1 = encryptionKey s)"
proof -
  obtain s0 w0 where l: "loadBiometricsPreference P (s, w) = (s0, w0)"
    by (cases "loadBiometricsPreference P (s, w)")
  note f0 = loadBiometricsPreference_frame [OF l]
  have i: "initialize P (s, w) = (s1, w1)"
    using assms by (simp add: initialize_def)
  obtain r sa wa where k: "initialize_key P (s0, w0) = (r, sa, wa)"
    by (cases "initialize_key P (s0, w0)")
  show ?thesis
  proof (cases r)
    case (Inl e')
    with k l assms(2) have "s1 = sa" "w1 = wa" by (simp_all add: initialize_try_def)
    with initialize_key_Inl [of P s0 w0 e' sa wa] k Inl f0 i show ?thesis by simp
  next
    case (Inr u)
    with k l assms(2) have d: "initialize_data P (sa, wa) = (Inl e, s1, w1)"
      by (simp add: initialize_try_def)
    from initialize_data_Inl [OF d] initialize_key_Inr [of P s0 w0 u sa wa] k Inr f0 i
    show ?thesis by auto
  qed
qed

text \<open>
  A new store that finds the key \<open>K\<close> in the keychain and a blob that is not an
  envelope.
\<close>

theorem initialize_failure_witness:
  "Platform_OS test_runtime \<noteq> Web \<and>
   \<not> isUserCanceled (JsError ''SyntaxError'') \<and>
   initialize test_runtime (new_store, corrupt_world) =
     (\<lparr>memory = [], biometricsEnabled = False, encryptionKey = Some ''K''\<rparr>,
      corrupt_world\<lparr>calls := [StorageGet ''kss.enabled.v1'', KeychainGet ''kss.service.v1'' False,
                              StorageGet ''kss.storage.v1'']\<rparr>) \<and>
   memory new_store = [] \<and>
   keychain corrupt_world ''kss.service.v1'' =
     Some \<lparr>username = ''kss.key.v1'', password = ''K'', biometric = False\<rparr>"
proof -
  have h1: "Platform_OS test_runtime \<noteq> Web" by (simp add: test_runtime_fields)
  have h3: "\<not> isUserCanceled (JsError ''SyntaxError'')" by simp
  have k: "keychain corrupt_world ''kss.service.v1'' =
     Some \<lparr>username = ''kss.key.v1'', password = ''K'', biometric = False\<rparr>"
    by (simp add: corrupt_world_def test_world_def test_keychain_def)
  show ?thesis
    using h1 h3 k initialize_failure [OF h1 initialize_try_corrupt h3]
    by (simp add: new_store_def)
qed

text \<open>
  The claim as it was stated, that no key is active after a failure other than a
  cancellation, fails on that input: the blob does not parse, the error is not a
  cancellation, and the store is left with the active key \<open>K\<close>.
\<close>

theorem initialize_failure_counterexample:
  "\<not> isUserCanceled (JsError ''SyntaxError'') \<and>
   fst (initialize_try test_runtime (new_store, corrupt_world)) = Inl (JsError ''SyntaxError'') \<and>
   encryptionKey (fst (initialize test_runtime (new_store, corrupt_world))) = Some ''K''"
  by (simp add: initialize_def initialize_try_corrupt test_runtime_fields)

section \<open>Changing the protection of the key\<close>

text \<open>
  Claim C8. When no encryption key is active or the platform is web,
  \<^verbatim>\<open>setEnableBiometrics\<close> returns without an error and changes nothing: the map, the
  active key and the biometrics flag of the store, and the keychain and AsyncStorage (the
  key, the encrypted blob and the preference) are what they were; no native call is made.
\<close>

theorem setEnableBiometrics_not_ready:
  "Platform_OS P = Web \<or> encryptionKey s = None \<Longrightarrow>
   setEnableBiometrics P enabled (s, w) = (Inr (), s, w)"
  by (simp add: setEnableBiometrics_def)

text \<open>
  A new store has no key: the rotation returns at once.
\<close>

theorem setEnableBiometrics_not_ready_witness:
  "(Platform_OS test_runtime = Web \<or> encryptionKey new_store = None) \<and>
   setEnableBiometrics test_runtime True (new_store, test_world (test_keychain ''K'') Map.empty (\<lambda>n. None))
     = (Inr (), new_store, test_world (test_keychain ''K'') Map.empty (\<lambda>n. None))"
proof -
  have h: "Platform_OS test_runtime = Web \<or> encryptionKey new_store = None"
    by (simp add: new_store_def)
  show ?thesis
    using h setEnableBiometrics_not_ready [OF h] by simp
qed

text \<open>
  Claim C10. Every execution of \<^verbatim>\<open>setEnableBiometrics\<close>, whether it returns or throws at
  any step, leaves the map in memory as it was.
\<close>

theorem setEnableBiometrics_keeps_memory:
  "memory (fst (snd (setEnableBiometrics P enabled (s, w)))) = memory s"
  by (auto simp: setEnableBiometrics_def setEnableBiometrics_try_def
        getEncryptionKeyFromKeychain_def saveEncryptionKeyToKeychain_def
      split: prod.splits sum.splits)

text \<open>
  Claim C2, as the code has it. When \<^verbatim>\<open>setEnableBiometrics\<close> throws, the map in memory
  is what it was. When the step that failed is any step before the last one, the active
  key and the biometrics flag are what they were too. When it is the last step, the write
  of the preference (lines 244-247, after the assignments of lines 242-243), the active key
  is the new key, which the keychain already holds under the requested protection, and the
  biometrics flag is the requested one.
\<close>

theorem setEnableBiometrics_failure:
  assumes "setEnableBiometrics P enabled (s, w) = (Inl e, s', w')"
  shows "memory s' = memory s \<and>
     (if last (calls w') = StorageSet (biometricsPreferenceKey (config P)) (String_of_bool enabled)
      then (\<exists>c. keychain w' (serviceName (config P)) = Some c \<and> biometric c = enabled \<and>
                encryptionKey s' = Some (password c)) \<and>
           biometricsEnabled s' = enabled
      else encryptionKey s' = encryptionKey s \<and> biometricsEnabled s' = biometricsEnabled s)"
proof -
  from assms have "setEnableBiometrics_try P enabled (s, w) = (Inl e, s', w')"
    by (simp add: setEnableBiometrics_def split: if_splits)
  then show ?thesis by (rule setEnableBiometrics_try_Inl)
qed

text \<open>
  A rotation whose last step, the write of the preference, fails.
\<close>

theorem setEnableBiometrics_failure_witness:
  "last [RandomKey 64, RandomKey 16,
            StorageSet ''kss.storage.v1''
              (put_string ''rx'' @ ''r+kss.salt.v1'' @ ''rx'' @ put_string ''session'' @ put_string ''A''),
            KeychainSet ''kss.service.v1'' ''kss.key.v1'' ''r+kss.salt.v1'' True,
            StorageSet ''kss.enabled.v1'' ''true'']
     = StorageSet (biometricsPreferenceKey (config test_runtime)) (String_of_bool True) \<and>
   fst (setEnableBiometrics test_runtime True (test_store ''K'', failing_preference_world))
     = Inl (JsError ''disk full'') \<and>
   memory (test_store ''K'') = [(''session'', ''A'')] \<and>
   (\<exists>c. keychain (snd (snd (setEnableBiometrics test_runtime True
                               (test_store ''K'', failing_preference_world)))) ''kss.service.v1''
           = Some c \<and> biometric c = True \<and> Some ''r+kss.salt.v1'' = Some (password c))"
  using setEnableBiometrics_failure [OF rotation_failing_preference]
  by (simp only: rotation_failing_preference fst_conv snd_conv)
     (simp add: test_config String_of_bool_def test_store_def)

text \<open>
  The claim as it was stated, that the active key and the flag are what they were after
  every failure, fails on that input: the call throws, and the store holds the new key and
  the new flag.
\<close>

theorem setEnableBiometrics_failure_counterexample:
  "fst (setEnableBiometrics test_runtime True (test_store ''K'', failing_preference_world))
     = Inl (JsError ''disk full'') \<and>
   encryptionKey (test_store ''K'') = Some ''K'' \<and>
   encryptionKey (fst (snd (setEnableBiometrics test_runtime True
                              (test_store ''K'', failing_preference_world))))
     = Some ''r+kss.salt.v1'' \<and>
   biometricsEnabled (test_store ''K'') = False \<and>
   biometricsEnabled (fst (snd (setEnableBiometrics test_runtime True
                                  (test_store ''K'', failing_preference_world))))
     = True"
  by (simp only: rotation_failing_preference fst_conv snd_conv) (simp add: test_store_def)

text \<open>
  Claim C3, as the code has it. In every execution of \<^verbatim>\<open>setEnableBiometrics\<close> that
  rotates the key and returns, the native calls are, in this order: the read of the old
  key when biometrics were enabled, the two random values, the write of the blob encrypted
  under the new key, the write of the new key to the keychain, the write of the
  preference. So the blob is written strictly before the new key is stored. At the end the
  persisted blob is the one encrypted under the new key, which is the key the keychain
  holds and the active key. After the prefix of the calls that ends with the write of the
  blob, the blob is already the new one while the keychain holds what it held before.
\<close>

theorem setEnableBiometrics_order:
  assumes "Platform_OS P \<noteq> Web" and "encryptionKey s \<noteq> None"
    and "setEnableBiometrics P enabled (s, w) = (Inr (), s', w')"
  shows "\<exists>newKey iv ct.
           calls w' = calls w
             @ (if biometricsEnabled s then [KeychainGet (serviceName (config P)) True] else [])
             @ [RandomKey 64, RandomKey 16,
                StorageSet (encryptedDataKey (config P)) (JSON_stringify_envelope P iv ct),
                KeychainSet (serviceName (config P)) (encryptionKeyUsername (config P))
                  newKey enabled,
                StorageSet (biometricsPreferenceKey (config P)) (String_of_bool enabled)] \<and>
           Aes_encrypt P (JSON_stringify_entries P (memory s)) newKey iv = Inr ct \<and>
           asyncStorage w' (encryptedDataKey (config P)) = Some (JSON_stringify_envelope P iv ct) \<and>
           keychain w' (serviceName (config P)) =
             Some \<lparr>username = encryptionKeyUsername (config P), password = newKey,
                   biometric = enabled\<rparr> \<and>
           encryptionKey s' = Some newKey \<and>
           asyncStorage
             (replay ((if biometricsEnabled s then [KeychainGet (serviceName (config P)) True] else [])
                @ [RandomKey 64, RandomKey 16,
                   StorageSet (encryptedDataKey (config P)) (JSON_stringify_envelope P iv ct)]) w)
             (encryptedDataKey (config P)) = Some (JSON_stringify_envelope P iv ct) \<and>
           keychain
             (replay ((if biometricsEnabled s then [KeychainGet (serviceName (config P)) True] else [])
                @ [RandomKey 64, RandomKey 16,
                   StorageSet (encryptedDataKey (config P)) (JSON_stringify_envelope P iv ct)]) w)
             (serviceName (config P)) = keychain w (serviceName (config P))"
proof -
  from assms have "setEnableBiometrics_try P enabled (s, w) = (Inr (), s', w')"
    by (auto simp: setEnableBiometrics_def)
  from setEnableBiometrics_try_Inr [OF this] obtain newKey iv ct where
    e: "Aes_encrypt P (JSON_stringify_entries P (memory s)) newKey iv = Inr ct" and
    s': "s' = s\<lparr>encryptionKey := Some newKey, biometricsEnabled := enabled\<rparr>" and
    w': "w' = w\<lparr>keychain := (keychain w)(serviceName (config P) \<mapsto>
                      \<lparr>username = encryptionKeyUsername (config P), password = newKey,
                       biometric = enabled\<rparr>),
                  asyncStorage := (asyncStorage w)
                     (encryptedDataKey (config P) \<mapsto> JSON_stringify_envelope P iv ct,
                      biometricsPreferenceKey (config P) \<mapsto> String_of_bool enabled),
                  calls := calls w
                     @ (if biometricsEnabled s then [KeychainGet (serviceName (config P)) True] else [])
                     @ [RandomKey 64, RandomKey 16,
                        StorageSet (encryptedDataKey (config P)) (JSON_stringify_envelope P iv ct),
                        KeychainSet (serviceName (config P)) (encryptionKeyUsername (config P))
                          newKey enabled,
                        StorageSet (biometricsPreferenceKey (config P)) (String_of_bool enabled)]\<rparr>"
    by blast
  have d: "encryptedDataKey (config P) \<noteq> biometricsPreferenceKey (config P)"
    using config_names_distinct [of P] by simp
  show ?thesis
    apply (rule exI [of _ newKey], rule exI [of _ iv], rule exI [of _ ct])
    using e d by (simp add: s' w' replay_append replay_Cons replay_Nil)
qed

text \<open>
  A rotation on a ready store in a world without faults.
\<close>

theorem setEnableBiometrics_order_witness:
  "Platform_OS test_runtime \<noteq> Web \<and> encryptionKey (test_store ''K'') \<noteq> None \<and>
   fst (setEnableBiometrics test_runtime True (test_store ''K'', quiet_world)) = Inr () \<and>
   calls quiet_world = [] \<and>
   (\<exists>newKey iv ct.
      calls (snd (snd (setEnableBiometrics test_runtime True (test_store ''K'', quiet_world)))) =
        [RandomKey 64, RandomKey 16,
         StorageSet ''kss.storage.v1'' (JSON_stringify_envelope test_runtime iv ct),
         KeychainSet ''kss.service.v1'' ''kss.key.v1'' newKey True,
         StorageSet ''kss.enabled.v1'' ''true''])"
proof -
  have h1: "Platform_OS test_runtime \<noteq> Web" by (simp add: test_runtime_fields)
  have h2: "encryptionKey (test_store ''K'') \<noteq> None" by (simp add: test_store_def)
  have h3: "calls quiet_world = []" "biometricsEnabled (test_store ''K'') = False"
    by (simp_all add: quiet_world_def test_world_def test_store_def)
  from setEnableBiometrics_order [OF h1 h2 rotation_quiet] obtain newKey iv ct where
    "calls (quiet_world
        \<lparr>keychain := [''kss.service.v1'' \<mapsto>
            \<lparr>username = ''kss.key.v1'', password = ''r+kss.salt.v1'', biometric = True\<rparr>],
         asyncStorage := [''kss.storage.v1'' \<mapsto>
            put_string ''rx'' @ ''r+kss.salt.v1'' @ ''rx'' @ put_string ''session'' @ put_string ''A'',
            ''kss.enabled.v1'' \<mapsto> ''true''],
         calls := [RandomKey 64, RandomKey 16,
            StorageSet ''kss.storage.v1''
              (put_string ''rx'' @ ''r+kss.salt.v1'' @ ''rx'' @ put_string ''session'' @ put_string ''A''),
            KeychainSet ''kss.service.v1'' ''kss.key.v1'' ''r+kss.salt.v1'' True,
            StorageSet ''kss.enabled.v1'' ''true'']\<rparr>) =
      calls quiet_world
             @ (if biometricsEnabled (test_store ''K'') then [KeychainGet (serviceName (config test_runtime)) True] else [])
             @ [RandomKey 64, RandomKey 16,
                StorageSet (encryptedDataKey (config test_runtime)) (JSON_stringify_envelope test_runtime iv ct),
                KeychainSet (serviceName (config test_runtime)) (encryptionKeyUsername (config test_runtime))
                  newKey True,
                StorageSet (biometricsPreferenceKey (config test_runtime)) (String_of_bool True)]"
    by blast
  then have "calls (snd (snd (setEnableBiometrics test_runtime True (test_store ''K'', quiet_world)))) =
        [RandomKey 64, RandomKey 16,
         StorageSet ''kss.storage.v1'' (JSON_stringify_envelope test_runtime iv ct),
         KeychainSet ''kss.service.v1'' ''kss.key.v1'' newKey True,
         StorageSet ''kss.enabled.v1'' ''true'']"
    by (simp only: rotation_quiet snd_conv h3 test_config String_of_bool_def) simp
  then show ?thesis
    using h1 h2 h3 by (auto simp only: rotation_quiet fst_conv)
qed

text \<open>
  The claim as it was stated, that after any prefix of the steps the persisted blob can
  be decrypted with a key the keychain holds, fails after the first three calls of that
  rotation: the blob is the one encrypted under the new key, the keychain still holds the
  old key \<open>K\<close>, and decryption of the blob under \<open>K\<close> is refused.
\<close>

theorem setEnableBiometrics_prefix_counterexample:
  "fst (setEnableBiometrics test_runtime True (test_store ''K'', quiet_world)) = Inr () \<and>
   asyncStorage
     (replay (take 3 (calls (snd (snd (setEnableBiometrics test_runtime True
                                         (test_store ''K'', quiet_world)))))) quiet_world)
     ''kss.storage.v1''
     = Some (put_string ''rx'' @ ''r+kss.salt.v1'' @ ''rx'' @ put_string ''session'' @ put_string ''A'') \<and>
   map_option password
     (keychain
        (replay (take 3 (calls (snd (snd (setEnableBiometrics test_runtime True
                                            (test_store ''K'', quiet_world)))))) quiet_world)
        ''kss.service.v1'')
     = Some ''K'' \<and>
   decryptData test_runtime
     (put_string ''rx'' @ ''r+kss.salt.v1'' @ ''rx'' @ put_string ''session'' @ put_string ''A'')
     (test_store ''K'')
     = Inl (JsError ''bad decrypt'')"
  by (simp only: rotation_quiet fst_conv snd_conv)
     (simp add: replay_Cons replay_Nil quiet_world_def test_world_def test_keychain_def
        decryptData_def test_store_def test_runtime_fields take_string_put_string)

section \<open>Reloading what was persisted\<close>

text \<open>
  Claim C5. Take any sequence of \<^verbatim>\<open>setItem\<close> and \<^verbatim>\<open>removeItem\<close> calls on a store with
  an active key that the keychain holds too, then a synchronization that completes, then
  \<^verbatim>\<open>initialize\<close> on a new store over the same keychain and AsyncStorage, with no call
  failing. Provided the cipher decrypts what it encrypted and JSON parses back what it
  wrote, the reloaded map holds under every key what the map in memory held at the time of
  the synchronization, and the active key is the same key.
\<close>

theorem sync_then_initialize:
  assumes "Platform_OS P \<noteq> Web"
    and "encryptionKey s0 = Some key" and "key \<noteq> []"
    and "map_option password (keychain w0 (serviceName (config P))) = Some key"
    and "run_calls P cs (s0, w0) = (s, w)"
    and "syncToStorage_try P key (s, w) = (Inr (), s', w')"
    and "\<forall>n\<ge>length (calls w'). fault w' n = None"
    and "cipher_inverts P" and "envelope_inverts P" and "entries_invert P (memory s)"
  shows "syncToStorage P (s, w) = (s', w') \<and>
         (\<forall>k. getItem k (fst (initialize P (new_store, w'))) = getItem k s) \<and>
         encryptionKey (fst (initialize P (new_store, w'))) = Some key"
proof -
  from run_calls_frame [OF assms(5)] assms(2)
  have ks: "encryptionKey s = Some key" and kw: "keychain w = keychain w0"
    by simp_all
  from syncToStorage_try_Inr [OF assms(6)] obtain iv ct where
    s': "s' = s" and
    e: "Aes_encrypt P (JSON_stringify_entries P (memory s)) key iv = Inr ct" and
    w': "w' = w\<lparr>asyncStorage := (asyncStorage w)
                      (encryptedDataKey (config P) \<mapsto> JSON_stringify_envelope P iv ct),
                  calls := calls w @ [RandomKey 16,
                      StorageSet (encryptedDataKey (config P)) (JSON_stringify_envelope P iv ct)]\<rparr>"
    by blast
  from assms(4) kw obtain c where
    kc: "keychain w' (serviceName (config P)) = Some c" and pw: "password c = key"
    by (auto simp: w')
  have bl: "asyncStorage w' (encryptedDataKey (config P)) = Some (JSON_stringify_envelope P iv ct)"
    by (simp add: w')
  have sy: "syncToStorage P (s, w) = (s', w')"
    using assms(1,3,6) ks by (simp add: syncToStorage_def)
  from initialize_loads [OF assms(1) kc pw assms(3) bl e assms(7) assms(8) assms(9) assms(10),
      of new_store]
  show ?thesis
    using sy by (simp add: getItem_def Map_get_def)
qed

text \<open>
  The entry \<open>session\<close> is set to \<open>B\<close>, a second entry is set and removed; after the
  synchronization a new store reads \<open>B\<close> under \<open>session\<close> and nothing under the removed
  key.
\<close>

theorem sync_then_initialize_witness:
  "Platform_OS test_runtime \<noteq> Web \<and> encryptionKey (test_store ''K'') = Some ''K'' \<and>
   map_option password (keychain quiet_world (serviceName (config test_runtime))) = Some ''K'' \<and>
   fst (syncToStorage_try test_runtime ''K''
          (run_calls test_runtime
             [SetItem ''session'' ''B'', SetItem ''theme'' ''dark'', RemoveItem ''theme'']
             (test_store ''K'', quiet_world))) = Inr () \<and>
   cipher_inverts test_runtime \<and> envelope_inverts test_runtime \<and>
   getItem ''session''
     (fst (initialize test_runtime
        (new_store,
         snd (snd (syncToStorage_try test_runtime ''K''
           (run_calls test_runtime
              [SetItem ''session'' ''B'', SetItem ''theme'' ''dark'', RemoveItem ''theme'']
              (test_store ''K'', quiet_world)))))))
     = Some ''B'' \<and>
   getItem ''theme''
     (fst (initialize test_runtime
        (new_store,
         snd (snd (syncToStorage_try test_runtime ''K''
           (run_calls test_runtime
              [SetItem ''session'' ''B'', SetItem ''theme'' ''dark'', RemoveItem ''theme'']
              (test_store ''K'', quiet_world)))))))
     = None"
proof -
  have h1: "Platform_OS test_runtime \<noteq> Web" by (simp add: test_runtime_fields)
  have h2: "encryptionKey (test_store ''K'') = Some ''K''" by (simp add: test_store_def)
  have h3: "''K'' \<noteq> []" by simp
  have h4: "map_option password (keychain quiet_world (serviceName (config test_runtime))) = Some ''K''"
    by (simp add: quiet_world_def test_world_def test_keychain_def test_config)
  have h7: "\<forall>n\<ge>length (calls \<lparr>keychain = test_keychain ''K'',
      asyncStorage = [''kss.storage.v1'' \<mapsto> ''11111110rxxxxxxKrxxxxxx11111110session10B''],
      calls =
          [RandomKey 16,
           StorageSet ''kss.storage.v1'' ''10rKr11111110session10B'',
           RandomKey 16,
           StorageSet ''kss.storage.v1'' ''1110rxxKrxx11111110session10B111110theme11110dark'',
           RandomKey 16,
           StorageSet ''kss.storage.v1'' ''111110rxxxxKrxxxx11111110session10B'',
           RandomKey 16,
           StorageSet ''kss.storage.v1'' ''11111110rxxxxxxKrxxxxxx11111110session10B''],
      fault = \<lambda>n. None, entropy = \<lambda>n. CHR ''r'' # replicate n (CHR ''x'')\<rparr>).
     fault \<lparr>keychain = test_keychain ''K'',
      asyncStorage = [''kss.storage.v1'' \<mapsto> ''11111110rxxxxxxKrxxxxxx11111110session10B''],
      calls =
          [RandomKey 16,
           StorageSet ''kss.storage.v1'' ''10rKr11111110session10B'',
           RandomKey 16,
           StorageSet ''kss.storage.v1'' ''1110rxxKrxx11111110session10B111110theme11110dark'',
           RandomKey 16,
           StorageSet ''kss.storage.v1'' ''111110rxxxxKrxxxx11111110session10B'',
           RandomKey 16,
           StorageSet ''kss.storage.v1'' ''11111110rxxxxxxKrxxxxxx11111110session10B''],
      fault = \<lambda>n. None, entropy = \<lambda>n. CHR ''r'' # replicate n (CHR ''x'')\<rparr> n = None"
    by simp
  have h10: "entries_invert test_runtime
     (memory \<lparr>memory = [(''session'', ''B'')], biometricsEnabled = False, encryptionKey = Some ''K''\<rparr>)"
    using test_entries_invert_B by simp
  from sync_then_initialize [OF h1 h2 h3 h4 run_quiet sync_after_run_quiet h7
      test_cipher_inverts test_envelope_inverts h10]
  show ?thesis
    using h1 h2 h4 test_cipher_inverts test_envelope_inverts
    by (simp only: run_quiet sync_after_run_quiet fst_conv snd_conv)
       (simp add: getItem_def Map_get_def)
qed

text \<open>
  Claim C4. After a rotation by \<^verbatim>\<open>setEnableBiometrics\<close> that returns, on a store with an
  active key, \<^verbatim>\<open>initialize\<close> on a new store over the same keychain and AsyncStorage, with
  no call failing, yields a map that holds under every key what the map held before the
  rotation. The key it decrypts with is the newly generated key, which the keychain holds,
  and the biometrics flag it loads is the requested one. This is provided the cipher
  decrypts what it encrypted, JSON parses back what it wrote, and a derived key is not the
  empty string. It holds for the empty map as well.
\<close>

theorem rotation_then_initialize:
  assumes "Platform_OS P \<noteq> Web" and "encryptionKey s \<noteq> None"
    and "setEnableBiometrics P enabled (s, w) = (Inr (), s1, w1)"
    and "\<forall>n\<ge>length (calls w1). fault w1 n = None"
    and "cipher_inverts P" and "envelope_inverts P" and "entries_invert P (memory s)"
    and "derived_keys_nonempty P"
  shows "(\<forall>k. getItem k (fst (initialize P (new_store, w1))) = getItem k s) \<and>
         encryptionKey (fst (initialize P (new_store, w1))) = encryptionKey s1 \<and>
         map_option password (keychain w1 (serviceName (config P))) = encryptionKey s1 \<and>
         biometricsEnabled (fst (initialize P (new_store, w1))) = enabled"
proof -
  from assms(1-3) have "setEnableBiometrics_try P enabled (s, w) = (Inr (), s1, w1)"
    by (auto simp: setEnableBiometrics_def)
  from setEnableBiometrics_try_Inr [OF this] obtain newKey iv ct rk where
    k: "Aes_pbkdf2 P rk (encryptionSalt (config P)) = Inr newKey" and
    e: "Aes_encrypt P (JSON_stringify_entries P (memory s)) newKey iv = Inr ct" and
    s1: "s1 = s\<lparr>encryptionKey := Some newKey, biometricsEnabled := enabled\<rparr>" and
    w1: "w1 = w\<lparr>keychain := (keychain w)(serviceName (config P) \<mapsto>
                      \<lparr>username = encryptionKeyUsername (config P), password = newKey,
                       biometric = enabled\<rparr>),
                  asyncStorage := (asyncStorage w)
                     (encryptedDataKey (config P) \<mapsto> JSON_stringify_envelope P iv ct,
                      biometricsPreferenceKey (config P) \<mapsto> String_of_bool enabled),
                  calls := calls w
                     @ (if biometricsEnabled s then [KeychainGet (serviceName (config P)) True] else [])
                     @ [RandomKey 64, RandomKey 16,
                        StorageSet (encryptedDataKey (config P)) (JSON_stringify_envelope P iv ct),
                        KeychainSet (serviceName (config P)) (encryptionKeyUsername (config P))
                          newKey enabled,
                        StorageSet (biometricsPreferenceKey (config P)) (String_of_bool enabled)]\<rparr>"
    by blast
  have d: "encryptedDataKey (config P) \<noteq> biometricsPreferenceKey (config P)"
    using config_names_distinct [of P] by simp
  have n: "newKey \<noteq> []"
    using k assms(8) by (auto simp: derived_keys_nonempty_def)
  have kc: "keychain w1 (serviceName (config P)) =
      Some \<lparr>username = encryptionKeyUsername (config P), password = newKey, biometric = enabled\<rparr>"
    by (simp add: w1)
  have pw: "password \<lparr>username = encryptionKeyUsername (config P), password = newKey,
      biometric = enabled\<rparr> = newKey"
    by simp
  have bl: "asyncStorage w1 (encryptedDataKey (config P)) = Some (JSON_stringify_envelope P iv ct)"
    using d by (simp add: w1)
  have pr: "(asyncStorage w1 (biometricsPreferenceKey (config P)) = Some ''true'') = enabled"
    by (simp add: w1 String_of_bool_def)
  from initialize_loads [OF assms(1) kc pw n bl e assms(4) assms(5) assms(6) assms(7), of new_store]
  show ?thesis
    by (simp add: getItem_def Map_get_def s1 kc pr)
qed

text \<open>
  A store with one entry is rotated to biometrics; a new store reads the entry back,
  holds the new key and has biometrics enabled.
\<close>

theorem rotation_then_initialize_witness:
  "Platform_OS test_runtime \<noteq> Web \<and> encryptionKey (test_store ''K'') \<noteq> None \<and>
   fst (setEnableBiometrics test_runtime True (test_store ''K'', quiet_world)) = Inr () \<and>
   cipher_inverts test_runtime \<and> envelope_inverts test_runtime \<and>
   entries_invert test_runtime (memory (test_store ''K'')) \<and>
   derived_keys_nonempty test_runtime \<and>
   getItem ''session'' (test_store ''K'') = Some ''A'' \<and>
   getItem ''session''
     (fst (initialize test_runtime
        (new_store, snd (snd (setEnableBiometrics test_runtime True (test_store ''K'', quiet_world))))))
     = Some ''A'' \<and>
   encryptionKey
     (fst (initialize test_runtime
        (new_store, snd (snd (setEnableBiometrics test_runtime True (test_store ''K'', quiet_world))))))
     = Some ''r+kss.salt.v1'' \<and>
   biometricsEnabled
     (fst (initialize test_runtime
        (new_store, snd (snd (setEnableBiometrics test_runtime True (test_store ''K'', quiet_world))))))"
proof -
  have h1: "Platform_OS test_runtime \<noteq> Web" by (simp add: test_runtime_fields)
  have h2: "encryptionKey (test_store ''K'') \<noteq> None" by (simp add: test_store_def)
  have m: "memory (test_store ''K'') = [(''session'', ''A'')]" by (simp add: test_store_def)
  have h7: "entries_invert test_runtime (memory (test_store ''K''))"
    by (simp only: m test_entries_invert_A)
  have g: "getItem ''session'' (test_store ''K'') = Some ''A''"
    by (simp add: getItem_def Map_get_def test_store_def)
  have h4: "\<forall>n\<ge>length (calls (quiet_world
        \<lparr>keychain := [''kss.service.v1'' \<mapsto>
            \<lparr>username = ''kss.key.v1'', password = ''r+kss.salt.v1'', biometric = True\<rparr>],
         asyncStorage := [''kss.storage.v1'' \<mapsto>
            put_string ''rx'' @ ''r+kss.salt.v1'' @ ''rx'' @ put_string ''session'' @ put_string ''A'',
            ''kss.enabled.v1'' \<mapsto> ''true''],
         calls := [RandomKey 64, RandomKey 16,
            StorageSet ''kss.storage.v1''
              (put_string ''rx'' @ ''r+kss.salt.v1'' @ ''rx'' @ put_string ''session'' @ put_string ''A''),
            KeychainSet ''kss.service.v1'' ''kss.key.v1'' ''r+kss.salt.v1'' True,
            StorageSet ''kss.enabled.v1'' ''true'']\<rparr>)).
      fault (quiet_world
        \<lparr>keychain := [''kss.service.v1'' \<mapsto>
            \<lparr>username = ''kss.key.v1'', password = ''r+kss.salt.v1'', biometric = True\<rparr>],
         asyncStorage := [''kss.storage.v1'' \<mapsto>
            put_string ''rx'' @ ''r+kss.salt.v1'' @ ''rx'' @ put_string ''session'' @ put_string ''A'',
            ''kss.enabled.v1'' \<mapsto> ''true''],
         calls := [RandomKey 64, RandomKey 16,
            StorageSet ''kss.storage.v1''
              (put_string ''rx'' @ ''r+kss.salt.v1'' @ ''rx'' @ put_string ''session'' @ put_string ''A''),
            KeychainSet ''kss.service.v1'' ''kss.key.v1'' ''r+kss.salt.v1'' True,
            StorageSet ''kss.enabled.v1'' ''true'']\<rparr>) n = None"
    by (simp add: quiet_world_def test_world_def)
  from rotation_then_initialize [OF h1 h2 rotation_quiet h4 test_cipher_inverts
      test_envelope_inverts h7 test_derived_keys_nonempty]
  show ?thesis
    using h1 h2 h7 g test_cipher_inverts test_envelope_inverts test_derived_keys_nonempty
    by (simp only: rotation_quiet fst_conv snd_conv) (simp add: test_store_def)
qed

end
